theory Spec2Isabelle
  imports Complex_Main
begin

section \<open>JavaScript numbers\<close>

text \<open>
  Every amount, fee and revenue figure of the program is a JavaScript \<^verbatim>\<open>number\<close>, an
  IEEE 754 binary64 value. A finite value is carried as the rational it denotes; the result
  of an arithmetic operation is the exact rational result rounded to the nearest double,
  ties to even. The two zeros are identified: the program never divides by a value that can
  be zero and never inspects the sign of a zero.
\<close>

datatype jsnum = NaN | PosInf | NegInf | Fin rat

function pow2 :: "int \<Rightarrow> rat" where
  "pow2 e = (if e = 0 then 1 else if 0 < e then 2 * pow2 (e - 1) else pow2 (e + 1) / 2)"
  by pat_completeness auto
termination
  by (relation "measure (\<lambda>e. nat \<bar>e\<bar>)") auto

declare pow2.simps [simp del]

function bit_length :: "int \<Rightarrow> int" where
  "bit_length n = (if n \<le> 0 then 0 else 1 + bit_length (n div 2))"
  by pat_completeness auto
termination
  by (relation "measure nat") auto

declare bit_length.simps [simp del]

definition round_half_even :: "rat \<Rightarrow> int" where
  "round_half_even y =
     (let f = \<lfloor>y\<rfloor>; r = y - of_int f
      in if r < 1 / 2 then f
         else if 1 / 2 < r then f + 1
         else if even f then f else f + 1)"

text \<open>For \<open>0 < a\<close>, \<open>ilog2 a\<close> is the exponent \<open>k\<close> with \<open>2 ^ k \<le> a < 2 ^ (k + 1)\<close>.\<close>

definition ilog2 :: "rat \<Rightarrow> int" where
  "ilog2 a =
     (let (p, q) = quotient_of a;
          k = bit_length p - bit_length q
      in if pow2 k \<le> a then k else k - 1)"

text \<open>
  Rounding to binary64: 53 significant bits, the least exponent of a unit in the last place
  is \<open>- 1074\<close> (subnormal numbers), and the largest finite value is
  \<open>(2 ^ 53 - 1) * 2 ^ 971\<close>; a result that rounds beyond it is an infinity.
\<close>

definition round_double :: "rat \<Rightarrow> jsnum" where
  "round_double x =
     (if x = 0 then Fin 0
      else let a = \<bar>x\<bar>;
               e = max (ilog2 a - 52) (- 1074);
               m = round_half_even (a / pow2 e);
               v = of_int m * pow2 e
           in if 971 < e \<or> (e = 971 \<and> 9007199254740992 \<le> m)
              then (if x < 0 then NegInf else PosInf)
              else Fin (if x < 0 then - v else v))"

fun fneg :: "jsnum \<Rightarrow> jsnum" where
  "fneg NaN = NaN"
| "fneg PosInf = NegInf"
| "fneg NegInf = PosInf"
| "fneg (Fin a) = Fin (- a)"

fun fadd :: "jsnum \<Rightarrow> jsnum \<Rightarrow> jsnum" where
  "fadd NaN _ = NaN"
| "fadd _ NaN = NaN"
| "fadd PosInf NegInf = NaN"
| "fadd NegInf PosInf = NaN"
| "fadd PosInf _ = PosInf"
| "fadd _ PosInf = PosInf"
| "fadd NegInf _ = NegInf"
| "fadd _ NegInf = NegInf"
| "fadd (Fin a) (Fin b) = round_double (a + b)"

definition fsub :: "jsnum \<Rightarrow> jsnum \<Rightarrow> jsnum" where
  "fsub x y = fadd x (fneg y)"

fun fmul :: "jsnum \<Rightarrow> jsnum \<Rightarrow> jsnum" where
  "fmul NaN _ = NaN"
| "fmul _ NaN = NaN"
| "fmul (Fin a) (Fin b) = round_double (a * b)"
| "fmul (Fin a) y = (if a = 0 then NaN else if 0 < a then y else fneg y)"
| "fmul x (Fin b) = (if b = 0 then NaN else if 0 < b then x else fneg x)"
| "fmul x y = (if x = y then PosInf else NegInf)"

fun fdiv :: "jsnum \<Rightarrow> jsnum \<Rightarrow> jsnum" where
  "fdiv NaN _ = NaN"
| "fdiv _ NaN = NaN"
| "fdiv (Fin a) (Fin b) =
     (if b = 0 then (if a = 0 then NaN else if 0 < a then PosInf else NegInf)
      else round_double (a / b))"
| "fdiv (Fin a) _ = Fin 0"
| "fdiv x (Fin b) = (if b < 0 then fneg x else x)"
| "fdiv _ _ = NaN"

text \<open>The comparison \<^verbatim>\<open>x < y\<close>; \<^verbatim>\<open>x > y\<close> is \<open>js_lt y x\<close>. A comparison with NaN is false.\<close>

fun js_lt :: "jsnum \<Rightarrow> jsnum \<Rightarrow> bool" where
  "js_lt NaN _ = False"
| "js_lt _ NaN = False"
| "js_lt (Fin a) (Fin b) = (a < b)"
| "js_lt NegInf NegInf = False"
| "js_lt NegInf _ = True"
| "js_lt _ NegInf = False"
| "js_lt PosInf _ = False"
| "js_lt _ PosInf = True"

definition isNaN :: "jsnum \<Rightarrow> bool" where
  "isNaN x = (x = NaN)"


text \<open>A count (an array length, a document count) as a number.\<close>

definition number_of_count :: "nat \<Rightarrow> jsnum" where
  "number_of_count n = round_double (of_nat n)"

subsection \<open>\<^verbatim>\<open>Number.prototype.toFixed(1)\<close>\<close>

text \<open>
  Strings are lists of UTF-16 code units; every code unit the program writes is below 256.
  \<^verbatim>\<open>toFixed(1)\<close> picks the integer \<open>n\<close> with \<open>n / 10\<close> closest to the exact value of the
  double, the larger one on a tie. From \<open>10 ^ 21\<close> on JavaScript switches to the exponential
  notation of \<^verbatim>\<open>ToString\<close>, which is left unexpanded.
\<close>

datatype rendering = Text string | Exponential jsnum

definition digit_char :: "int \<Rightarrow> char" where
  "digit_char d =
     (if d = 0 then CHR ''0'' else if d = 1 then CHR ''1'' else if d = 2 then CHR ''2''
      else if d = 3 then CHR ''3'' else if d = 4 then CHR ''4'' else if d = 5 then CHR ''5''
      else if d = 6 then CHR ''6'' else if d = 7 then CHR ''7'' else if d = 8 then CHR ''8''
      else CHR ''9'')"

function decimal :: "int \<Rightarrow> string" where
  "decimal n = (if n < 10 then [digit_char n] else decimal (n div 10) @ [digit_char (n mod 10)])"
  by pat_completeness auto
termination
  by (relation "measure nat") auto

declare decimal.simps [simp del]

fun toFixed1 :: "jsnum \<Rightarrow> rendering" where
  "toFixed1 NaN = Text ''NaN''"
| "toFixed1 PosInf = Text ''Infinity''"
| "toFixed1 NegInf = Text ''-Infinity''"
| "toFixed1 (Fin x) =
     (if 10 ^ 21 \<le> \<bar>x\<bar> then Exponential (Fin x)
      else let n = \<lfloor>\<bar>x\<bar> * 10 + 1 / 2\<rfloor>;
               m = decimal (n div 10) @ ''.'' @ [digit_char (n mod 10)]
           in Text (if x < 0 then ''-'' @ m else m))"

section \<open>Data model (\<^verbatim>\<open>src/types.ts\<close>)\<close>

datatype OrderStatus = Pending | Completed | Expired | Cancelled | Refunded

record Store =
  s_id :: string
  s_name :: string
  s_description :: "string option"
  apiKey :: "string option"
  pixFeePercentage :: "jsnum option"
  pixFeeFixed :: "jsnum option"
  s_createdAt :: string

text \<open>\<^verbatim>\<open>Order extends PaymentIntent, PixGoCustomer\<close>; an optional field is an option.\<close>

record Order =
  order_id :: string
  amount :: jsnum
  description :: string
  createdAt :: string
  status :: OrderStatus
  pixgo_payment_id :: "string option"
  qr_code :: "string option"
  qr_image_url :: "string option"
  store_id :: "string option"
  store_name :: "string option"
  customer_name :: "string option"
  customer_cpf :: "string option"
  customer_email :: "string option"
  customer_phone :: "string option"
  customer_address :: "string option"
  updatedAt :: string

record Metrics =
  totalOrders :: nat
  totalRevenue :: jsnum
  pendingOrders :: nat
  conversionRate :: rendering

section \<open>Fee simulation (\<^verbatim>\<open>src/components/AdminDashboard.tsx\<close>)\<close>

record FeeSimulation =
  fee :: jsnum
  net :: jsnum
  isValid :: bool
  message :: string

definition msg_min :: string where
  "msg_min = ''Valor m'' @ [CHR 0xED] @ ''nimo por transa'' @ [CHR 0xE7, CHR 0xE3] @ ''o ''
     @ [CHR 0xE9] @ '' R$ 10,00''"

definition msg_max :: string where
  "msg_max = ''Valor m'' @ [CHR 0xE1] @ ''ximo por transa'' @ [CHR 0xE7, CHR 0xE3] @ ''o ''
     @ [CHR 0xE9] @ '' R$ 6.000,00''"

text \<open>The literal \<^verbatim>\<open>0.02\<close> is the double nearest to \<open>2 / 100\<close>.\<close>

definition two_percent :: jsnum where
  "two_percent = round_double (2 / 100)"

text \<open>
  The simulation effect, on \<open>val = parseFloat(amount)\<close>. The effect stores \<^verbatim>\<open>null\<close> for an
  empty input and for an input that does not parse; \<^verbatim>\<open>parseFloat\<close> of the empty string is
  NaN, so both are the NaN branch here.
\<close>

definition feeSimulation :: "jsnum \<Rightarrow> FeeSimulation option" where
  "feeSimulation val =
     (if isNaN val then None
      else let (valid, msg) =
                 (if js_lt val (Fin 10) then (False, msg_min)
                  else if js_lt (Fin 6000) val then (False, msg_max)
                  else (True, ''''));
               f = (if js_lt val (Fin 50) then fadd (fmul val two_percent) (Fin 1)
                    else fmul val two_percent)
           in Some \<lparr>fee = f, net = fsub val f, isValid = valid, message = msg\<rparr>)"

section \<open>Financial card (\<^verbatim>\<open>src/components/AdminDashboard.tsx\<close>)\<close>




section \<open>Local cache (the helpers of \<^verbatim>\<open>db\<close>, second half of \<^verbatim>\<open>src/types.ts\<close>)\<close>

text \<open>
  A key of \<^verbatim>\<open>localStorage\<close> is missing, holds text that \<^verbatim>\<open>JSON.parse\<close> rejects (the
  empty string, which the helper does not even parse, or corrupt text), or holds text that
  parses to a JSON value. \<^verbatim>\<open>JSON.parse\<close> returns \<^verbatim>\<open>any\<close>: nothing checks that the value is
  an array. The elements of a stored array are taken to have the shape of the entity.
\<close>

datatype non_array = JNull | JBool bool | JNumber rat | JString string | JObject

datatype 'a js_value = NonArray non_array | Array "'a list"

datatype 'a cached = Missing | Unparsable | Stored "'a js_value"

text \<open>
  \<^verbatim>\<open>try { const data = localStorage.getItem(KEY); return data ? JSON.parse(data) : []; }
  catch { return []; }\<close>
\<close>

definition read_cache :: "'a cached \<Rightarrow> 'a js_value" where
  "read_cache c = (case c of Missing \<Rightarrow> Array [] | Unparsable \<Rightarrow> Array [] | Stored v \<Rightarrow> v)"

text \<open>
  The world the gateway acts on: whether a request to the backend succeeds, the
  \<^verbatim>\<open>Order\<close> collection of the backend, and the two keys of the local cache.
\<close>

record world =
  backend_up :: bool
  remote_orders :: "Order list"
  local_orders :: "Order cached"
  local_stores :: "Store cached"

definition getLocalOrders :: "world \<Rightarrow> Order js_value" where
  "getLocalOrders w = read_cache (local_orders w)"

definition getLocalStores :: "world \<Rightarrow> Store js_value" where
  "getLocalStores w = read_cache (local_stores w)"

subsection \<open>Array helpers\<close>

fun findIndex :: "('a \<Rightarrow> bool) \<Rightarrow> 'a list \<Rightarrow> nat option" where
  "findIndex P [] = None"
| "findIndex P (x # xs) =
     (if P x then Some 0 else map_option Suc (findIndex P xs))"

text \<open>Changing the first element that satisfies \<open>P\<close>, as a write through the reference
  that \<^verbatim>\<open>find\<close> or \<^verbatim>\<open>findOneAndUpdate\<close> obtained.\<close>

fun update_first :: "('a \<Rightarrow> bool) \<Rightarrow> ('a \<Rightarrow> 'a) \<Rightarrow> 'a list \<Rightarrow> 'a list" where
  "update_first P f [] = []"
| "update_first P f (x # xs) = (if P x then f x # xs else x # update_first P f xs)"

text \<open>A store scope is given when the id is a non-empty string (JavaScript truthiness).\<close>

definition truthy :: "string option \<Rightarrow> bool" where
  "truthy s = (case s of None \<Rightarrow> False | Some t \<Rightarrow> t \<noteq> [])"

section \<open>Backend (\<^verbatim>\<open>src/unnamed/part_000\<close>)\<close>

datatype 'a response = Ok 'a | NotFound string

text \<open>
  \<^verbatim>\<open>OrderSchema\<close> lists every field of \<^verbatim>\<open>Order\<close> except \<^verbatim>\<open>customer_address\<close>. A Mongoose
  schema is strict: a path that the schema does not list is not written. An update document
  without operators is applied as \<^verbatim>\<open>$set\<close>: a field that the request body does not carry
  (an optional field that is \<^verbatim>\<open>undefined\<close> on the client) keeps its stored value.
  Timestamps are ISO strings as \<^verbatim>\<open>toISOString\<close> writes them, which the \<^verbatim>\<open>Date\<close> fields of the
  schema return unchanged.
\<close>

definition keep :: "'a option \<Rightarrow> 'a option \<Rightarrow> 'a option" where
  "keep new old = (case new of Some v \<Rightarrow> Some v | None \<Rightarrow> old)"

definition set_fields :: "Order \<Rightarrow> Order \<Rightarrow> Order" where
  "set_fields u d =
     \<lparr>order_id = order_id u, amount = amount u, description = description u,
      createdAt = createdAt u, status = status u,
      pixgo_payment_id = keep (pixgo_payment_id u) (pixgo_payment_id d),
      qr_code = keep (qr_code u) (qr_code d),
      qr_image_url = keep (qr_image_url u) (qr_image_url d),
      store_id = keep (store_id u) (store_id d),
      store_name = keep (store_name u) (store_name d),
      customer_name = keep (customer_name u) (customer_name d),
      customer_cpf = keep (customer_cpf u) (customer_cpf d),
      customer_email = keep (customer_email u) (customer_email d),
      customer_phone = keep (customer_phone u) (customer_phone d),
      customer_address = None,
      updatedAt = updatedAt u\<rparr>"

definition new_document :: "Order \<Rightarrow> Order" where
  "new_document u = u\<lparr>customer_address := None\<rparr>"

text \<open>\<^verbatim>\<open>GET /api/orders/:id\<close>\<close>

definition get_order_handler :: "Order list \<Rightarrow> string \<Rightarrow> Order response" where
  "get_order_handler docs i =
     (case find (\<lambda>d. order_id d = i) docs of
        None \<Rightarrow> NotFound (''Pedido n'' @ [CHR 0xE3] @ ''o encontrado'')
      | Some order \<Rightarrow> Ok order)"

text \<open>\<^verbatim>\<open>POST /api/orders\<close>: \<^verbatim>\<open>findOneAndUpdate\<close> with \<^verbatim>\<open>upsert: true\<close>; \<open>now\<close> is the
  server's \<^verbatim>\<open>new Date()\<close>.\<close>

definition post_order_handler :: "string \<Rightarrow> Order \<Rightarrow> Order list \<Rightarrow> Order response \<times> Order list" where
  "post_order_handler now body docs =
     (let updateData = body\<lparr>updatedAt := now\<rparr>
      in case find (\<lambda>d. order_id d = order_id body) docs of
           Some old \<Rightarrow>
             (Ok (set_fields updateData old),
              update_first (\<lambda>d. order_id d = order_id body) (set_fields updateData) docs)
         | None \<Rightarrow> (Ok (new_document updateData), docs @ [new_document updateData]))"


subsection \<open>\<^verbatim>\<open>GET /api/dashboard/metrics\<close>\<close>

record query =
  q_store_id :: "string option"
  q_status :: "OrderStatus option"

definition matches :: "query \<Rightarrow> Order \<Rightarrow> bool" where
  "matches q d =
     ((case q_store_id q of None \<Rightarrow> True | Some s \<Rightarrow> store_id d = Some s)
      \<and> (case q_status q of None \<Rightarrow> True | Some st \<Rightarrow> status d = st))"

definition countDocuments :: "query \<Rightarrow> Order list \<Rightarrow> nat" where
  "countDocuments q docs = length (filter (matches q) docs)"

text \<open>
  The pipeline \<^verbatim>\<open>[{$match: q}, {$group: {_id: null, total: {$sum: "$amount"}}}]\<close>: no result
  row when nothing matches, one row otherwise. The accumulator of the database is outside the
  repository; \<^verbatim>\<open>$sum\<close> is taken to add the matched amounts as doubles in collection order.
\<close>

definition aggregate_sum :: "query \<Rightarrow> Order list \<Rightarrow> jsnum list" where
  "aggregate_sum q docs =
     (let matched = filter (matches q) docs
      in if matched = [] then [] else [foldl fadd (Fin 0) (map amount matched)])"

definition metrics_handler :: "Order list \<Rightarrow> string option \<Rightarrow> Metrics" where
  "metrics_handler docs storeId =
     (let q = (if truthy storeId then \<lparr>q_store_id = storeId, q_status = None\<rparr>
               else \<lparr>q_store_id = None, q_status = None\<rparr>);
          total = countDocuments q docs;
          pending = countDocuments (q\<lparr>q_status := Some Pending\<rparr>) docs;
          revenueAgg = aggregate_sum (q\<lparr>q_status := Some Completed\<rparr>) docs;
          revenue = (case revenueAgg of [] \<Rightarrow> Fin 0 | r # _ \<Rightarrow> r);
          completedCount = countDocuments (q\<lparr>q_status := Some Completed\<rparr>) docs;
          rate = (if 0 < total
                  then toFixed1 (fmul (fdiv (number_of_count completedCount) (number_of_count total)) (Fin 100))
                  else Text ''0.0'')
      in \<lparr>totalOrders = total, totalRevenue = revenue, pendingOrders = pending,
          conversionRate = rate\<rparr>)"

section \<open>Gateway (\<^verbatim>\<open>db\<close>, second half of \<^verbatim>\<open>src/types.ts\<close>)\<close>

text \<open>
  \<^verbatim>\<open>axios\<close> resolves with the body of a 2xx response and throws otherwise; every operation
  of \<^verbatim>\<open>db\<close> catches that and runs the same operation on the local cache. There a value that
  is not an array has none of the array methods, and the call throws a TypeError that
  nothing catches: the promise of the operation is rejected.
\<close>

datatype js_error = TypeError

definition axios :: "bool \<Rightarrow> 'a response \<Rightarrow> 'a option" where
  "axios up r = (if up then (case r of Ok d \<Rightarrow> Some d | NotFound _ \<Rightarrow> None) else None)"

definition getOrderById :: "world \<Rightarrow> string \<Rightarrow> js_error + Order option" where
  "getOrderById w i =
     (case axios (backend_up w) (get_order_handler (remote_orders w) i) of
        Some d \<Rightarrow> Inr (Some d)
      | None \<Rightarrow>
          (case getLocalOrders w of
             NonArray _ \<Rightarrow> Inl TypeError
           | Array orders \<Rightarrow> Inr (find (\<lambda>x. order_id x = i) orders)))"

text \<open>\<open>now\<close> is the reading of the clock that stamps \<^verbatim>\<open>updatedAt\<close>: the server's on the
  remote path, the browser's on the fallback path.\<close>

definition saveOrder :: "world \<Rightarrow> string \<Rightarrow> Order \<Rightarrow> (js_error + Order) \<times> world" where
  "saveOrder w now order =
     (let (r, docs) = post_order_handler now order (remote_orders w)
      in case axios (backend_up w) r of
           Some d \<Rightarrow> (Inr d, w\<lparr>remote_orders := docs\<rparr>)
         | None \<Rightarrow>
             (case getLocalOrders w of
                NonArray _ \<Rightarrow> (Inl TypeError, w)
              | Array orders \<Rightarrow>
                  (let toSave = order\<lparr>updatedAt := now\<rparr>;
                       orders' = (case findIndex (\<lambda>x. order_id x = order_id order) orders of
                                    Some idx \<Rightarrow> orders[idx := toSave]
                                  | None \<Rightarrow> orders @ [toSave])
                   in (Inr toSave, w\<lparr>local_orders := Stored (Array orders')\<rparr>))))"


text \<open>The catch branch of \<^verbatim>\<open>db.getMetrics\<close>, on the array the cache holds.\<close>

definition localMetrics :: "Order list \<Rightarrow> string option \<Rightarrow> Metrics" where
  "localMetrics cache storeId =
     (let orders = (if truthy storeId then filter (\<lambda>x. store_id x = storeId) cache else cache);
          total = length orders;
          completedOrders = filter (\<lambda>x. status x = Completed) orders;
          revenue = foldl (\<lambda>acc curr. fadd acc (amount curr)) (Fin 0) completedOrders;
          pending = length (filter (\<lambda>x. status x = Pending) orders);
          rate = (if 0 < total
                  then toFixed1 (fmul (fdiv (number_of_count (length completedOrders)) (number_of_count total))
                                      (Fin 100))
                  else Text ''0.0'')
      in \<lparr>totalOrders = total, totalRevenue = revenue, pendingOrders = pending,
          conversionRate = rate\<rparr>)"

definition getMetrics :: "world \<Rightarrow> string option \<Rightarrow> js_error + Metrics" where
  "getMetrics w storeId =
     (case axios (backend_up w) (Ok (metrics_handler (remote_orders w) storeId)) of
        Some m \<Rightarrow> Inr m
      | None \<Rightarrow>
          (case getLocalOrders w of
             NonArray _ \<Rightarrow> Inl TypeError
           | Array orders \<Rightarrow> Inr (localMetrics orders storeId)))"


section \<open>Creating an order (\<^verbatim>\<open>handleGenerateLink\<close>, \<^verbatim>\<open>src/components/AdminDashboard.tsx\<close>)\<close>





section \<open>Properties as the specification words them\<close>





text \<open>
  The array that the fallback branch of \<^verbatim>\<open>saveOrder\<close> writes back.
\<close>

definition local_put :: "Order \<Rightarrow> Order list \<Rightarrow> Order list" where
  "local_put y xs = (case findIndex (\<lambda>x. order_id x = order_id y) xs of
      Some idx \<Rightarrow> xs[idx := y] | None \<Rightarrow> xs @ [y])"




subsection \<open>Sample data\<close>

definition sample_order :: "string \<Rightarrow> jsnum \<Rightarrow> OrderStatus \<Rightarrow> Order" where
  "sample_order i a st =
     \<lparr>order_id = i, amount = a, description = ''Pedido'',
      createdAt = ''2024-01-01T00:00:00.000Z'', status = st,
      pixgo_payment_id = None, qr_code = None, qr_image_url = None,
      store_id = None, store_name = None,
      customer_name = None, customer_cpf = None, customer_email = None,
      customer_phone = None, customer_address = None,
      updatedAt = ''2024-01-01T00:00:00.000Z''\<rparr>"



section \<open>Auxiliary facts\<close>

subsection \<open>Rounding\<close>

text \<open>
  The exponent search is correct, so a value in the normal range rounds to a finite double
  within a factor of two, and a count below \<open>2 ^ 53\<close> is a double itself.
\<close>

lemma pow2_powi: "pow2 e = 2 powi e"
proof (induction e rule: pow2.induct)
  case (1 e)
  show ?case
  proof (cases "e = 0")
    case True
    then show ?thesis by (simp add: pow2.simps)
  next
    case False
    show ?thesis
    proof (cases "0 < e")
      case True
      with 1 False have "pow2 (e - 1) = 2 powi (e - 1)" by simp
      moreover have "(2::rat) powi (e - 1) * 2 = 2 powi e"
        by (rule power_int_minus_mult) simp
      ultimately show ?thesis
        using True False by (subst pow2.simps) (simp add: mult.commute)
    next
      case neg: False
      with 1 False have "pow2 (e + 1) = 2 powi (e + 1)" by simp
      moreover have "(2::rat) powi (e + 1) = 2 powi e * 2"
        by (rule power_int_add_1) simp
      ultimately show ?thesis
        using neg False by (subst pow2.simps) simp
    qed
  qed
qed

lemma bit_length_bounds:
  "0 < n \<Longrightarrow> 1 \<le> bit_length n \<and> 2 ^ nat (bit_length n - 1) \<le> n \<and> n < 2 ^ nat (bit_length n)"
proof (induction n rule: bit_length.induct)
  case (1 n)
  show ?case
  proof (cases "n = 1")
    case True
    have "bit_length 1 = 1" by (subst bit_length.simps, subst bit_length.simps) simp
    with True show ?thesis by simp
  next
    case False
    with 1(2) have pos: "0 < n div 2" by simp
    with 1 have ih: "1 \<le> bit_length (n div 2)" "2 ^ nat (bit_length (n div 2) - 1) \<le> n div 2"
        "n div 2 < 2 ^ nat (bit_length (n div 2))"
      by simp_all
    have bl: "bit_length n = 1 + bit_length (n div 2)"
      using 1(2) by (subst bit_length.simps) simp
    let ?b = "bit_length (n div 2)"
    have n1: "nat ?b = Suc (nat (?b - 1))" using ih(1) by simp
    have n2: "nat (1 + ?b) = Suc (nat ?b)" using ih(1) by simp
    have "(2::int) ^ nat ?b = 2 * 2 ^ nat (?b - 1)" by (subst n1) simp
    also have "\<dots> \<le> 2 * (n div 2)" using ih(2) by simp
    also have "\<dots> \<le> n" by simp
    finally have lo: "2 ^ nat ?b \<le> n" .
    have "n < 2 * (n div 2) + 2" by presburger
    also have "\<dots> \<le> 2 * 2 ^ nat ?b" using ih(3) by simp
    also have "\<dots> = 2 ^ nat (1 + ?b)" by (subst n2) simp
    finally have hi: "n < 2 ^ nat (1 + ?b)" .
    from lo hi ih(1) show ?thesis by (simp add: bl)
  qed
qed

lemma bit_length_powi:
  assumes "0 < n"
  shows "2 powi (bit_length n - 1) \<le> (of_int n :: rat)" and "(of_int n :: rat) < 2 powi (bit_length n)"
proof -
  from bit_length_bounds [OF assms]
  have b: "1 \<le> bit_length n" "2 ^ nat (bit_length n - 1) \<le> n" "n < 2 ^ nat (bit_length n)"
    by simp_all
  have "(2::rat) powi (bit_length n - 1) = 2 ^ nat (bit_length n - 1)"
    using b(1) by (simp add: power_int_nonneg_exp)
  also have "\<dots> = of_int (2 ^ nat (bit_length n - 1))" by simp
  also have "\<dots> \<le> of_int n" using b(2) by (simp only: of_int_le_iff)
  finally show "2 powi (bit_length n - 1) \<le> (of_int n :: rat)" .
  have "(of_int n :: rat) < of_int (2 ^ nat (bit_length n))" using b(3) by (simp only: of_int_less_iff)
  also have "\<dots> = 2 ^ nat (bit_length n)" by simp
  also have "\<dots> = 2 powi (bit_length n)" using b(1) by (simp add: power_int_nonneg_exp)
  finally show "(of_int n :: rat) < 2 powi (bit_length n)" .
qed

lemma ilog2_bounds:
  assumes "0 < a"
  shows "2 powi (ilog2 a) \<le> a \<and> a < 2 powi (ilog2 a + 1)"
proof -
  obtain p q where pq: "quotient_of a = (p, q)" by (cases "quotient_of a")
  then have q: "0 < q" by (rule quotient_of_denom_pos)
  have a: "a = of_int p / of_int q" using pq by (rule quotient_of_div)
  with assms q have p: "0 < p" by (simp add: zero_less_divide_iff)
  let ?k = "bit_length p - bit_length q"
  note bp = bit_length_powi [OF p] and bq = bit_length_powi [OF q]
  have qpos: "(0::rat) < of_int q" using q by simp
  have "a < 2 powi (bit_length p) / of_int q"
    unfolding a using bp(2) qpos by (simp add: divide_strict_right_mono)
  also have "\<dots> \<le> 2 powi (bit_length p) / 2 powi (bit_length q - 1)"
  proof (rule divide_left_mono)
    show "2 powi (bit_length q - 1) \<le> (of_int q :: rat)" by (rule bq(1))
    show "(0::rat) \<le> 2 powi bit_length p" by simp
    show "(0::rat) < of_int q * 2 powi (bit_length q - 1)"
      using qpos by (intro mult_pos_pos) simp_all
  qed
  also have "\<dots> = 2 powi (?k + 1)"
    by (simp add: power_int_diff [symmetric] algebra_simps)
  finally have hi: "a < 2 powi (?k + 1)" .
  have "(2::rat) powi (?k - 1) = 2 powi ((bit_length p - 1) - bit_length q)"
    by (simp add: algebra_simps)
  also have "\<dots> = 2 powi (bit_length p - 1) / 2 powi (bit_length q)"
    by (rule power_int_diff) simp
  also have "\<dots> \<le> of_int p / 2 powi (bit_length q)"
    using bp(1) by (simp add: divide_right_mono)
  also have "\<dots> \<le> of_int p / of_int q"
  proof (rule divide_left_mono)
    show "(of_int q :: rat) \<le> 2 powi bit_length q" using bq(2) by simp
    show "(0::rat) \<le> of_int p" using p by simp
    show "(0::rat) < 2 powi bit_length q * of_int q"
      using qpos by (intro mult_pos_pos) simp_all
  qed
  finally have lo: "2 powi (?k - 1) \<le> a" by (simp add: a)
  show ?thesis
    using hi lo by (simp add: ilog2_def pq Let_def pow2_powi)
qed


lemma round_half_even_int: "round_half_even (of_int z) = z"
  by (simp add: round_half_even_def)

lemma powi_less_exp: "(2::rat) powi i < 2 powi j \<Longrightarrow> i < j"
proof (rule ccontr)
  assume l: "(2::rat) powi i < 2 powi j" and "\<not> i < j"
  then have "j \<le> i" by simp
  then have "(2::rat) powi j \<le> 2 powi i" by (rule power_int_increasing) simp
  with l show False by simp
qed



lemma number_of_count_exact:
  assumes "n < 2 ^ 53"
  shows "number_of_count n = Fin (of_nat n)"
proof (cases "n = 0")
  case True
  then show ?thesis by (simp add: number_of_count_def round_double_def)
next
  case False
  let ?a = "of_nat n :: rat"
  have pos: "0 < ?a" using False by simp
  note b = ilog2_bounds [OF pos]
  let ?k = "ilog2 ?a"
  have "?a < 2 ^ 53" using assms by (metis of_nat_less_iff of_nat_numeral of_nat_power)
  then have "?a < 2 powi 53" by simp
  with b have "(2::rat) powi ?k < 2 powi 53" by linarith
  then have k_hi: "?k < 53" by (rule powi_less_exp)
  have "(1::rat) \<le> ?a" using False by (simp add: Suc_le_eq)
  then have "(2::rat) powi 0 < 2 powi (?k + 1)" using b by simp
  then have k_lo: "0 \<le> ?k" using powi_less_exp by fastforce
  let ?e = "?k - 52"
  have e: "max (?k - 52) (- 1074) = ?e" using k_lo by simp
  have inv: "(2::rat) powi (- ?e) = 1 / 2 powi ?e" by (rule power_int_minus_divide)
  have "(2::rat) powi (- ?e) = 2 ^ nat (52 - ?k)"
    using k_hi by (subst power_int_nonneg_exp) simp_all
  with inv have "1 / (2::rat) powi ?e = 2 ^ nat (52 - ?k)" by simp
  then have "?a / 2 powi ?e = ?a * 2 ^ nat (52 - ?k)"
    by (metis divide_inverse inverse_eq_divide)
  then have y: "?a / 2 powi ?e = of_int (int n * 2 ^ nat (52 - ?k))"
    by simp
  have m: "round_half_even (?a / 2 powi ?e) = int n * 2 ^ nat (52 - ?k)"
    unfolding y by (rule round_half_even_int)
  have v: "of_int (int n * 2 ^ nat (52 - ?k)) * (2::rat) powi ?e = ?a"
    using y by (metis nonzero_divide_eq_eq power_int_eq_0_iff zero_neq_numeral)
  have "round_double ?a = Fin (of_int (round_half_even (?a / 2 powi ?e)) * 2 powi ?e)"
    using pos k_hi by (simp add: round_double_def Let_def e pow2_powi)
  also have "\<dots> = Fin ?a" by (simp only: m v)
  finally show ?thesis by (simp add: number_of_count_def)
qed

text \<open>
  Whole amounts add without rounding while the sum stays below \<open>2 ^ 53\<close>: for such
  amounts the revenue is the exact sum, in whatever order the amounts are added.
\<close>

lemma fadd_counts:
  assumes "a + b < 2 ^ 53"
  shows "fadd (Fin (of_nat a)) (Fin (of_nat b)) = Fin (of_nat (a + b))"
  using number_of_count_exact [OF assms] by (simp add: number_of_count_def)

lemma whole_amounts_exact:
  "k + sum_list ns < 2 ^ 53 \<Longrightarrow>
   foldl fadd (Fin (of_nat k)) (map (\<lambda>n. Fin (of_nat n)) ns) = Fin (of_nat (k + sum_list ns))"
proof (induction ns arbitrary: k)
  case Nil
  then show ?case by simp
next
  case (Cons n ns)
  from Cons.prems have "k + n < 2 ^ 53" by simp
  then have "fadd (Fin (of_nat k)) (Fin (of_nat n)) = Fin (of_nat (k + n))" by (rule fadd_counts)
  moreover from Cons.prems have "(k + n) + sum_list ns < 2 ^ 53" by (simp add: add.assoc)
  then have "foldl fadd (Fin (of_nat (k + n))) (map (\<lambda>n. Fin (of_nat n)) ns)
      = Fin (of_nat ((k + n) + sum_list ns))" by (rule Cons.IH)
  ultimately show ?case by (simp add: add.assoc)
qed

subsection \<open>Rendering\<close>





subsection \<open>Literals and messages\<close>

lemma msg_min_neq_max: "msg_min \<noteq> msg_max"
  by (simp add: msg_min_def msg_max_def)





lemma r999: "round_double (999 / 100) = Fin (5623870034678907 / 562949953421312)"
  by code_simp

lemma r600001: "round_double (600001 / 100) = Fin (3298540380886139 / 549755813888)"
  by code_simp

subsection \<open>Arrays\<close>

lemma findIndex_None: "findIndex P xs = None \<longleftrightarrow> find P xs = None"
  by (induction xs) auto


lemma findIndex_Some_update:
  "findIndex P xs = Some i \<Longrightarrow> xs[i := y] = update_first P (\<lambda>_. y) xs"
  by (induction xs arbitrary: i) (auto split: if_splits)

lemma findIndex_Some_find: "findIndex P xs = Some i \<Longrightarrow> \<exists>old. find P xs = Some old"
  by (induction xs arbitrary: i) (auto split: if_splits)

lemma find_update_first:
  "find P xs = Some old \<Longrightarrow> P (f old) \<Longrightarrow> find P (update_first P f xs) = Some (f old)"
  by (induction xs) (auto split: if_splits)


lemma find_append_new: "find P xs = None \<Longrightarrow> P y \<Longrightarrow> find P (xs @ [y]) = Some y"
  by (induction xs) (auto split: if_splits)

lemma update_first_absent: "find P xs = None \<Longrightarrow> update_first P f xs = xs"
  by (induction xs) (auto split: if_splits)



subsection \<open>Writes\<close>

lemma getLocalOrders_put [simp]:
  "getLocalOrders (w\<lparr>local_orders := Stored v\<rparr>) = v"
  by (simp add: getLocalOrders_def read_cache_def)

lemma getLocalOrders_remote [simp]:
  "getLocalOrders (w\<lparr>remote_orders := ds\<rparr>) = getLocalOrders w"
  by (simp add: getLocalOrders_def)

lemma keep_Some [simp]: "keep (Some v) old = Some v"
  by (simp add: keep_def)

lemma find_local_put: "find (\<lambda>x. order_id x = order_id y) (local_put y xs) = Some y"
proof (cases "findIndex (\<lambda>x. order_id x = order_id y) xs")
  case None
  then have "find (\<lambda>x. order_id x = order_id y) xs = None"
    by (simp add: findIndex_None)
  then show ?thesis
    by (simp add: local_put_def None find_append_new)
next
  case (Some i)
  then obtain old where "find (\<lambda>x. order_id x = order_id y) xs = Some old"
    using findIndex_Some_find by fastforce
  with Some show ?thesis
    by (simp add: local_put_def findIndex_Some_update find_update_first)
qed



lemma saveOrder_down:
  "\<not> backend_up w \<Longrightarrow> getLocalOrders w = Array os \<Longrightarrow>
   saveOrder w now ord =
     (Inr (ord\<lparr>updatedAt := now\<rparr>),
      w\<lparr>local_orders := Stored (Array (local_put (ord\<lparr>updatedAt := now\<rparr>) os))\<rparr>)"
  by (simp add: saveOrder_def axios_def local_put_def Let_def split: prod.splits)

lemma saveOrder_down_bad:
  "\<not> backend_up w \<Longrightarrow> getLocalOrders w = NonArray v \<Longrightarrow> saveOrder w now ord = (Inl TypeError, w)"
  by (simp add: saveOrder_def axios_def Let_def split: prod.splits)

lemma saveOrder_up:
  "backend_up w \<Longrightarrow>
   saveOrder w now ord =
     (case fst (post_order_handler now ord (remote_orders w)) of Ok d \<Rightarrow> Inr d | NotFound _ \<Rightarrow> Inl TypeError,
      w\<lparr>remote_orders := snd (post_order_handler now ord (remote_orders w))\<rparr>)"
  by (auto simp add: saveOrder_def axios_def post_order_handler_def Let_def split: prod.splits option.splits)

lemma post_find:
  "find (\<lambda>x. order_id x = order_id ord) (snd (post_order_handler now ord docs)) =
     Some (case find (\<lambda>x. order_id x = order_id ord) docs of
             None \<Rightarrow> new_document (ord\<lparr>updatedAt := now\<rparr>)
           | Some old \<Rightarrow> set_fields (ord\<lparr>updatedAt := now\<rparr>) old)"
  by (auto simp add: post_order_handler_def Let_def find_append_new find_update_first
      new_document_def set_fields_def split: option.splits)




subsection \<open>Metrics\<close>








section \<open>Metrics\<close>



text \<open>
  The scenario of the specification: three orders, two of them completed.
\<close>

lemma metrics_scenario:
  "localMetrics [sample_order ''a'' (Fin 100) Completed, sample_order ''b'' (Fin 20) Pending,
                 sample_order ''c'' (Fin 5000) Completed] None
   = \<lparr>totalOrders = 3, totalRevenue = Fin 5100, pendingOrders = 1, conversionRate = Text ''66.7''\<rparr>"
  unfolding localMetrics_def sample_order_def truthy_def number_of_count_def Let_def
  by code_simp


section \<open>Fee simulation\<close>



text \<open>
  Claim C3. The simulation marks the amount invalid with the minimum message exactly when
  it is below 10 and invalid with the maximum message exactly when it is above 6000;
  9.99 and 6000.01 are invalid, 10 and 6000 are valid.
\<close>

theorem amount_validity:
  "(val \<noteq> NaN \<longrightarrow>
     (\<exists>s. feeSimulation val = Some s
       \<and> ((\<not> isValid s \<and> message s = msg_min) \<longleftrightarrow> js_lt val (Fin 10))
       \<and> ((\<not> isValid s \<and> message s = msg_max) \<longleftrightarrow> js_lt (Fin 6000) val)
       \<and> (isValid s \<longleftrightarrow> \<not> js_lt val (Fin 10) \<and> \<not> js_lt (Fin 6000) val)))
   \<and> map_option isValid (feeSimulation (round_double (999 / 100))) = Some False
   \<and> map_option isValid (feeSimulation (Fin 10)) = Some True
   \<and> map_option isValid (feeSimulation (Fin 6000)) = Some True
   \<and> map_option isValid (feeSimulation (round_double (600001 / 100))) = Some False"
proof -
  have "val \<noteq> NaN \<longrightarrow>
     (\<exists>s. feeSimulation val = Some s
       \<and> ((\<not> isValid s \<and> message s = msg_min) \<longleftrightarrow> js_lt val (Fin 10))
       \<and> ((\<not> isValid s \<and> message s = msg_max) \<longleftrightarrow> js_lt (Fin 6000) val)
       \<and> (isValid s \<longleftrightarrow> \<not> js_lt val (Fin 10) \<and> \<not> js_lt (Fin 6000) val))"
    using msg_min_neq_max
    by (cases val) (auto simp add: feeSimulation_def isNaN_def Let_def split: prod.splits)
  moreover have "map_option isValid (feeSimulation (round_double (999 / 100))) = Some False"
    by (simp add: r999 feeSimulation_def isNaN_def Let_def)
  moreover have "map_option isValid (feeSimulation (Fin 10)) = Some True"
    by (simp add: feeSimulation_def isNaN_def Let_def)
  moreover have "map_option isValid (feeSimulation (Fin 6000)) = Some True"
    by (simp add: feeSimulation_def isNaN_def Let_def)
  moreover have "map_option isValid (feeSimulation (round_double (600001 / 100))) = Some False"
    by (simp add: r600001 feeSimulation_def isNaN_def Let_def)
  ultimately show ?thesis by blast
qed

theorem amount_validity_witness:
  "Fin 7000 \<noteq> NaN
   \<and> map_option isValid (feeSimulation (Fin 7000)) = Some False
   \<and> map_option message (feeSimulation (Fin 7000)) = Some msg_max"
  using amount_validity [of "Fin 7000"] by auto

section \<open>Financial card\<close>



section \<open>Creating an order\<close>




section \<open>Status transition\<close>




section \<open>Saving and reading back\<close>



text \<open>
  On the cache the order read back is the order saved, up to \<^verbatim>\<open>updatedAt\<close>. On the
  backend it is the stored document: without \<^verbatim>\<open>customer_address\<close>, and with the optional
  fields of an earlier document where the saved order has none.
\<close>

lemma local_roundtrip:
  assumes "\<not> backend_up w" and "getLocalOrders w = Array os"
  shows "getOrderById (snd (saveOrder w now ord)) (order_id ord) = Inr (Some (ord\<lparr>updatedAt := now\<rparr>))"
  using assms find_local_put [of "ord\<lparr>updatedAt := now\<rparr>" os]
  by (simp add: saveOrder_down getOrderById_def axios_def)

lemma remote_roundtrip:
  assumes "backend_up w"
  shows "getOrderById (snd (saveOrder w now ord)) (order_id ord) =
     Inr (Some (case find (\<lambda>x. order_id x = order_id ord) (remote_orders w) of
             None \<Rightarrow> new_document (ord\<lparr>updatedAt := now\<rparr>)
           | Some old \<Rightarrow> set_fields (ord\<lparr>updatedAt := now\<rparr>) old))"
  using assms post_find [of ord now "remote_orders w"]
  by (simp add: saveOrder_up getOrderById_def axios_def get_order_handler_def)

lemma remote_roundtrip_fresh:
  assumes "backend_up w" and "find (\<lambda>x. order_id x = order_id ord) (remote_orders w) = None"
  shows "getOrderById (snd (saveOrder w now ord)) (order_id ord)
     = Inr (Some (ord\<lparr>updatedAt := now, customer_address := None\<rparr>))"
  using assms remote_roundtrip [of w now ord] by (simp add: new_document_def)

text \<open>
  Claim C7 at an order with a customer address, saved while the backend is up: the order
  read back has no \<^verbatim>\<open>customer_address\<close>, a field other than \<^verbatim>\<open>updatedAt\<close>.
\<close>

theorem remote_roundtrip_loses_address:
  "getOrderById
     (snd (saveOrder \<lparr>backend_up = True, remote_orders = [], local_orders = Missing, local_stores = Missing\<rparr>
        ''2024-01-01T00:00:01.000Z''
        \<lparr>order_id = ''abc'', amount = Fin 100, description = ''Pedido'',
         createdAt = ''2024-01-01T00:00:00.000Z'', status = Pending,
         pixgo_payment_id = None, qr_code = None, qr_image_url = None,
         store_id = None, store_name = None,
         customer_name = Some ''Ana'', customer_cpf = None, customer_email = None,
         customer_phone = None, customer_address = Some ''Rua A, 1'',
         updatedAt = ''2024-01-01T00:00:00.000Z''\<rparr>))
     ''abc''
   = Inr (Some \<lparr>order_id = ''abc'', amount = Fin 100, description = ''Pedido'',
         createdAt = ''2024-01-01T00:00:00.000Z'', status = Pending,
         pixgo_payment_id = None, qr_code = None, qr_image_url = None,
         store_id = None, store_name = None,
         customer_name = Some ''Ana'', customer_cpf = None, customer_email = None,
         customer_phone = None, customer_address = None,
         updatedAt = ''2024-01-01T00:00:01.000Z''\<rparr>)"
  by (simp add: saveOrder_def getOrderById_def axios_def post_order_handler_def
      get_order_handler_def new_document_def Let_def)

section \<open>Reading the cache\<close>

text \<open>
  The helpers never throw: a missing key and text that does not parse give the empty
  array, and text that parses gives the parsed value, array or not.
\<close>

lemma helpers_total:
  "getLocalOrders w = (case local_orders w of Stored v \<Rightarrow> v | _ \<Rightarrow> Array [])"
  "getLocalStores w = (case local_stores w of Stored v \<Rightarrow> v | _ \<Rightarrow> Array [])"
  by (simp_all add: getLocalOrders_def getLocalStores_def read_cache_def split: cached.splits)

text \<open>
  Claim C10 at a cache whose two keys hold the text \<^verbatim>\<open>null\<close>: both helpers return
  \<^verbatim>\<open>null\<close>, not a list, and the fallback operations built on them throw a TypeError.
\<close>

theorem non_array_cache_breaks:
  "getLocalOrders \<lparr>backend_up = False, remote_orders = [], local_orders = Stored (NonArray JNull),
                   local_stores = Stored (NonArray JNull)\<rparr> = NonArray JNull
   \<and> getLocalStores \<lparr>backend_up = False, remote_orders = [], local_orders = Stored (NonArray JNull),
                   local_stores = Stored (NonArray JNull)\<rparr> = NonArray JNull
   \<and> getMetrics \<lparr>backend_up = False, remote_orders = [], local_orders = Stored (NonArray JNull),
                   local_stores = Stored (NonArray JNull)\<rparr> None = Inl TypeError
   \<and> getOrderById \<lparr>backend_up = False, remote_orders = [], local_orders = Stored (NonArray JNull),
                   local_stores = Stored (NonArray JNull)\<rparr> ''abc'' = Inl TypeError"
  by (simp add: getLocalOrders_def getLocalStores_def read_cache_def getMetrics_def getOrderById_def axios_def)

end
